theory Spec2Isabelle
  imports Complex_Main
begin

section \<open>The power calculator of TeachMichigan: data and external routines\<close>

text \<open>
  The computational core of \<^verbatim>\<open>power_calculator.py\<close> is two functions,
  \<^verbatim>\<open>calculate_power\<close> (lines 10--31) and \<^verbatim>\<open>calculate_sample_size\<close>
  (lines 33--42). Python's unbounded ints are modelled as \<^typ>\<open>int\<close>, its floats as
  \<^typ>\<open>real\<close> (no infinity, no NaN). The arithmetic on floats is exact, with one
  exception: line 11 turns a float product into an integer, and there the rounding of the
  product to a double decides the result (\<^verbatim>\<open>int(100 * 0.29)\<close> is 28), so that product
  is rounded as IEEE 754 binary64 does.

  An exception is a value: every function returns \<open>py_error + 'a\<close>, with \<open>Inl\<close> the
  exception raised. \<open>ZeroDivisionError\<close> is what Python's \<^verbatim>\<open>/\<close> raises on a zero
  divisor. \<open>DegenerateInputError\<close> and \<open>UnderlyingSolverFailure\<close> are the names of the
  specification's error taxonomy; the source constructs neither, \<open>UnderlyingSolverFailure\<close>
  stands for whatever an external routine may raise.
\<close>

datatype py_error = ZeroDivisionError | DegenerateInputError | UnderlyingSolverFailure

text \<open>
  The two routines of \<^verbatim>\<open>statsmodels.stats.power\<close> are not part of the repository; they
  are parameters of the model, with the keyword arguments in the order the source writes
  them, and they may raise.
  \<^item> \<^verbatim>\<open>TTestIndPower().solve_power(effect_size, nobs1, ratio, alpha, alternative)\<close>
  \<^item> \<^verbatim>\<open>tt_ind_solve_power(effect_size, alpha, power, ratio, alternative)\<close>
\<close>

type_synonym power_routine = "real \<Rightarrow> real \<Rightarrow> real \<Rightarrow> real \<Rightarrow> string \<Rightarrow> py_error + real"

type_synonym solve_routine = "real \<Rightarrow> real \<Rightarrow> real \<Rightarrow> real \<Rightarrow> string \<Rightarrow> py_error + real"

text \<open>Python's \<^verbatim>\<open>int(x)\<close> on a float truncates towards zero.\<close>

definition py_int :: "real \<Rightarrow> int" where
  "py_int x = (if 0 \<le> x then \<lfloor>x\<rfloor> else \<lceil>x\<rceil>)"

subsection \<open>Rounding to a double\<close>

text \<open>
  A double has a significand of 53 bits. For \<open>x > 0\<close>, \<open>binade x\<close> is the exponent \<open>e\<close>
  with \<open>2 ^ e \<le> x < 2 ^ (e + 1)\<close>, found by halving or doubling \<open>x\<close>; the doubles of that
  binade are the multiples of \<open>2 ^ (e - 52)\<close>, and \<open>round_double x\<close> is the multiple
  nearest to \<open>x\<close>, the even one in a tie. The exponent is not bounded: overflow to infinity
  and subnormal numbers are not modelled (the counts and shares of the calculator reach
  neither, and the truncation of line 11 sends every value below 1 to 0).
\<close>

definition pow2 :: "int \<Rightarrow> real" where
  "pow2 e = (if 0 \<le> e then 2 ^ nat e else 1 / 2 ^ nat (- e))"

function binade :: "real \<Rightarrow> int" where
  "binade x = (if 2 \<le> x then binade (x / 2) + 1
               else if 0 < x \<and> x < 1 then binade (x * 2) - 1
               else 0)"
  by pat_completeness auto

termination binade
proof (relation "measure (\<lambda>x. nat \<bar>\<lfloor>log 2 x\<rfloor>\<bar>)")
  show "wf (measure (\<lambda>x. nat \<bar>\<lfloor>log 2 x\<rfloor>\<bar>))" by simp
next
  fix x :: real
  assume x: "2 \<le> x"
  then have "log 2 (x / 2) = log 2 x - 1" by (simp add: log_divide)
  then have eq: "\<lfloor>log 2 (x / 2)\<rfloor> = \<lfloor>log 2 x\<rfloor> - 1" by simp
  from x have "1 \<le> log 2 x" by (simp add: le_log_iff)
  then have "1 \<le> \<lfloor>log 2 x\<rfloor>" by (simp add: le_floor_iff)
  with eq have "nat \<bar>\<lfloor>log 2 (x / 2)\<rfloor>\<bar> < nat \<bar>\<lfloor>log 2 x\<rfloor>\<bar>" by linarith
  then show "(x / 2, x) \<in> measure (\<lambda>x. nat \<bar>\<lfloor>log 2 x\<rfloor>\<bar>)"
    by (simp only: in_measure)
next
  fix x :: real
  assume "\<not> 2 \<le> x" and x: "0 < x \<and> x < 1"
  then have "log 2 (x * 2) = log 2 x + 1" by (simp add: log_mult)
  then have eq: "\<lfloor>log 2 (x * 2)\<rfloor> = \<lfloor>log 2 x\<rfloor> + 1" by simp
  from x have "log 2 x < 0" by simp
  then have "\<lfloor>log 2 x\<rfloor> < 0" by (simp add: floor_less_iff)
  with eq have "nat \<bar>\<lfloor>log 2 (x * 2)\<rfloor>\<bar> < nat \<bar>\<lfloor>log 2 x\<rfloor>\<bar>" by linarith
  then show "(x * 2, x) \<in> measure (\<lambda>x. nat \<bar>\<lfloor>log 2 x\<rfloor>\<bar>)"
    by (simp only: in_measure)
qed

declare binade.simps [simp del]

definition round_half_even :: "real \<Rightarrow> int" where
  "round_half_even y =
     (let f = \<lfloor>y\<rfloor> in
      if y - real_of_int f < 1/2 then f
      else if 1/2 < y - real_of_int f then f + 1
      else if even f then f else f + 1)"

definition round_double :: "real \<Rightarrow> real" where
  "round_double x =
     (if x = 0 then 0
      else (let ulp = pow2 (binade \<bar>x\<bar> - 52)
            in real_of_int (round_half_even (x / ulp)) * ulp))"

text \<open>
  Python's \<^verbatim>\<open>*\<close> on an int and a float converts the int to a float and rounds the
  product. A real argument stands for the float that Python holds for it: the nearest
  double (the value itself when it is a double, as \<open>0.5\<close> is; the double nearest to
  \<open>29 / 100\<close> for the slider's \<^verbatim>\<open>29 / 100\<close> of lines 72 and 82).
\<close>

definition py_float_mul :: "real \<Rightarrow> real \<Rightarrow> real" where
  "py_float_mul x y = round_double (round_double x * round_double y)"

section \<open>calculate\_power\<close>

text \<open>Line 11: \<^verbatim>\<open>n_treatment = int(n_teachers * outcome_share)\<close>.\<close>

definition n_treatment :: "int \<Rightarrow> real \<Rightarrow> int" where
  "n_treatment n_teachers outcome_share =
     py_int (py_float_mul (real_of_int n_teachers) outcome_share)"

text \<open>
  Lines 14--21: the value bound to \<^verbatim>\<open>effective_n_treatment\<close>. The division by
  \<^verbatim>\<open>deff\<close> raises when \<^verbatim>\<open>deff\<close> is zero. \<^verbatim>\<open>effective_n_control\<close> is computed from
  \<^verbatim>\<open>n_control = n_treatment\<close> by the same expression (it raises exactly when the first
  division does) and is never read.
\<close>

definition effective_n_treatment :: "int \<Rightarrow> real \<Rightarrow> int \<Rightarrow> bool \<Rightarrow> real \<Rightarrow> py_error + real" where
  "effective_n_treatment n_teachers outcome_share students_per_teacher use_clustering icc =
     (if use_clustering \<and> icc > 0 then
        (let deff = 1 + (real_of_int students_per_teacher - 1) * icc in
         if deff = 0 then Inl ZeroDivisionError
         else Inr (real_of_int (n_treatment n_teachers outcome_share * students_per_teacher)
                   / deff))
      else Inr (real_of_int (n_treatment n_teachers outcome_share * students_per_teacher)))"

text \<open>Lines 23--31: the call of the external power routine, whose result is returned.\<close>

definition calculate_power ::
  "power_routine \<Rightarrow> int \<Rightarrow> real \<Rightarrow> real \<Rightarrow> int \<Rightarrow> bool \<Rightarrow> real \<Rightarrow> py_error + real" where
  "calculate_power solve_power n_teachers outcome_share effect_size students_per_teacher
       use_clustering icc =
     (case effective_n_treatment n_teachers outcome_share students_per_teacher use_clustering icc of
        Inl e \<Rightarrow> Inl e
      | Inr nobs1 \<Rightarrow> solve_power effect_size nobs1 1 0.05 ''two-sided'')"

section \<open>calculate\_sample\_size\<close>

text \<open>Lines 34--38: the value bound to \<^verbatim>\<open>deff\<close>.\<close>

definition deff :: "int \<Rightarrow> bool \<Rightarrow> real \<Rightarrow> real" where
  "deff students_per_teacher use_clustering icc =
     (if use_clustering \<and> icc > 0 then 1 + (real_of_int students_per_teacher - 1) * icc else 1)"

text \<open>
  Lines 40--42. The solver is called first and its result is a Python float; then the
  division by \<^verbatim>\<open>students_per_teacher * outcome_share\<close> raises on zero;
  \<^verbatim>\<open>int(np.ceil(x))\<close> is the ceiling.
\<close>

definition calculate_sample_size ::
  "solve_routine \<Rightarrow> real \<Rightarrow> real \<Rightarrow> int \<Rightarrow> bool \<Rightarrow> real \<Rightarrow> py_error + int" where
  "calculate_sample_size tt_ind_solve_power effect_size outcome_share students_per_teacher
       use_clustering icc =
     (case tt_ind_solve_power effect_size 0.05 0.8 1 ''two-sided'' of
        Inl e \<Rightarrow> Inl e
      | Inr n \<Rightarrow>
          if real_of_int students_per_teacher * outcome_share = 0 then Inl ZeroDivisionError
          else
            (let total_teachers =
                   \<lceil>(n * deff students_per_teacher use_clustering icc)
                      / (real_of_int students_per_teacher * outcome_share)\<rceil>
             in Inr (total_teachers * 2)))"

section \<open>The specification's ClusterAdjustment\<close>

text \<open>
  Following the words of the specification (section 4.1), not the source: the design effect
  is \<open>1 + (units_per_cluster - 1) * icc\<close> when the clustering flag is set and \<open>icc > 0\<close>,
  and exactly 1 in every other case (clustering disabled, or \<open>icc \<le> 0\<close>).
\<close>

definition ClusterAdjustment_spec :: "int \<Rightarrow> real \<Rightarrow> bool \<Rightarrow> real" where
  "ClusterAdjustment_spec units_per_cluster icc flag =
     (if \<not> flag \<or> icc \<le> 0 then 1 else 1 + real_of_int (units_per_cluster - 1) * icc)"

section \<open>The round trip\<close>

text \<open>
  The specification's round trip (section 8): the total of \<^verbatim>\<open>calculate_sample_size\<close>,
  split evenly as line 119 does (\<^verbatim>\<open>required_teachers // 2\<close>), is fed to
  \<^verbatim>\<open>calculate_power\<close> with the same settings.
\<close>

definition round_trip ::
  "power_routine \<Rightarrow> solve_routine \<Rightarrow> real \<Rightarrow> real \<Rightarrow> int \<Rightarrow> bool \<Rightarrow> real \<Rightarrow> py_error + real" where
  "round_trip solve_power tt_ind_solve_power effect_size outcome_share students_per_teacher
       use_clustering icc =
     (case calculate_sample_size tt_ind_solve_power effect_size outcome_share
             students_per_teacher use_clustering icc of
        Inl e \<Rightarrow> Inl e
      | Inr required_teachers \<Rightarrow>
          calculate_power solve_power (required_teachers div 2) outcome_share effect_size
            students_per_teacher use_clustering icc)"

section \<open>Deterministic stand-ins for the external routines\<close>

text \<open>
  A closed-form pair used to run the model on concrete inputs: power grows linearly with
  the number of observations and is capped at 1; the solver is its exact inverse. The pair
  is self-consistent (the power at the solver's answer is the target) and the power is
  non-decreasing in the number of observations.
\<close>

definition stub_solve_power :: power_routine where
  "stub_solve_power effect_size nobs1 ratio alpha alternative =
     Inr (min 1 (max 0 (nobs1 * effect_size * effect_size / 20)))"

definition stub_tt_ind_solve_power :: solve_routine where
  "stub_tt_ind_solve_power effect_size alpha power' ratio alternative =
     (if effect_size = 0 then Inl UnderlyingSolverFailure
      else Inr (20 * power' / (effect_size * effect_size)))"



section \<open>Auxiliary facts\<close>

text \<open>
  The rounding of line 11's product: \<open>binade\<close> finds the binade of a positive number,
  and \<open>round_double\<close> moves a number by at most half a unit in the last place.
\<close>

lemma pow2_pos: "0 < pow2 e"
  by (simp add: pow2_def)

lemma pow2_Suc: "pow2 (e + 1) = 2 * pow2 e"
proof (cases "0 \<le> e")
  case True
  then show ?thesis by (simp add: pow2_def nat_add_distrib)
next
  case False
  then have "nat (- e) = Suc (nat (- (e + 1)))" by simp
  with False show ?thesis by (auto simp add: pow2_def)
qed

lemma binade_bounds: "0 < x \<Longrightarrow> pow2 (binade x) \<le> x \<and> x < pow2 (binade x + 1)"
proof (induction x rule: binade.induct)
  case (1 x)
  show ?case
  proof (cases "2 \<le> x")
    case True
    with "1.IH"(1) "1.prems" have "pow2 (binade (x / 2)) \<le> x / 2 \<and> x / 2 < pow2 (binade (x / 2) + 1)"
      by simp
    moreover from True have "binade x = binade (x / 2) + 1" by (simp add: binade.simps [of x])
    moreover have "pow2 (binade (x / 2) + 1) = 2 * pow2 (binade (x / 2))"
      and "pow2 (binade (x / 2) + 1 + 1) = 2 * pow2 (binade (x / 2) + 1)"
      by (rule pow2_Suc)+
    ultimately show ?thesis by (simp del: add.commute)
  next
    case False
    show ?thesis
    proof (cases "x < 1")
      case True
      with False "1.IH"(2) "1.prems" have ih: "pow2 (binade (x * 2)) \<le> x * 2 \<and> x * 2 < pow2 (binade (x * 2) + 1)"
        by simp
      from True False "1.prems" have "binade x = binade (x * 2) - 1"
        by (simp add: binade.simps [of x])
      moreover note ih
      moreover have "pow2 (binade (x * 2)) = 2 * pow2 (binade (x * 2) - 1)"
        and "pow2 (binade (x * 2) + 1) = 2 * pow2 (binade (x * 2))"
        using pow2_Suc [of "binade (x * 2) - 1"] pow2_Suc [of "binade (x * 2)"] by simp_all
      moreover from \<open>binade x = binade (x * 2) - 1\<close>
      have "pow2 (binade x) = pow2 (binade (x * 2) - 1)"
        and "pow2 (binade x + 1) = pow2 (binade (x * 2))" by simp_all
      ultimately show ?thesis by linarith
    next
      case False
      with \<open>\<not> 2 \<le> x\<close> have "binade x = 0" by (simp add: binade.simps [of x])
      with False \<open>\<not> 2 \<le> x\<close> show ?thesis by (simp add: pow2_def)
    qed
  qed
qed

lemma round_half_even_nearest: "\<bar>real_of_int (round_half_even y) - y\<bar> \<le> 1/2"
proof -
  have "real_of_int \<lfloor>y\<rfloor> \<le> y" and "y < real_of_int \<lfloor>y\<rfloor> + 1" by linarith+
  then show ?thesis by (auto simp add: round_half_even_def Let_def)
qed

lemma round_double_nearest:
  assumes "x \<noteq> 0"
  shows "\<bar>round_double x - x\<bar> \<le> pow2 (binade \<bar>x\<bar> - 52) / 2"
proof -
  let ?u = "pow2 (binade \<bar>x\<bar> - 52)"
  have u: "0 < ?u" by (rule pow2_pos)
  have "\<bar>real_of_int (round_half_even (x / ?u)) - x / ?u\<bar> \<le> 1/2"
    by (rule round_half_even_nearest)
  with u have "\<bar>real_of_int (round_half_even (x / ?u)) - x / ?u\<bar> * ?u \<le> 1/2 * ?u"
    by (simp only: mult_le_cancel_right_pos)
  moreover have "\<bar>real_of_int (round_half_even (x / ?u)) - x / ?u\<bar> * ?u
      = \<bar>real_of_int (round_half_even (x / ?u)) * ?u - x\<bar>"
  proof -
    from u have "\<bar>real_of_int (round_half_even (x / ?u)) - x / ?u\<bar> * ?u
        = \<bar>(real_of_int (round_half_even (x / ?u)) - x / ?u) * ?u\<bar>"
      by (simp add: abs_mult)
    also from u have "(real_of_int (round_half_even (x / ?u)) - x / ?u) * ?u
        = real_of_int (round_half_even (x / ?u)) * ?u - x"
      by (simp add: left_diff_distrib)
    finally show ?thesis .
  qed
  ultimately show ?thesis using assms by (simp add: round_double_def Let_def)
qed

text \<open>The double nearest to \<open>0.29\<close>, and the product \<^verbatim>\<open>100 * 0.29\<close>, as in Python.\<close>

lemma round_double_29: "round_double (29/100) = 5224175567749775 / 2 ^ 54"
  by (simp add: round_double_def round_half_even_def pow2_def binade.simps)

lemma py_float_mul_100_29: "py_float_mul 100 (29/100) = 8162774324609023 / 2 ^ 48"
  by (simp add: py_float_mul_def round_double_def round_half_even_def pow2_def binade.simps)

text \<open>
  The rounded product of line 11 at slider values: 100 fellows at 29 percent are 28
  teachers, 20 at 35 percent are 7, 100 at 57 percent are 56, as in Python.
\<close>

lemmas n_treatment_eval =
  n_treatment_def py_float_mul_def round_double_def round_half_even_def pow2_def py_int_def
  binade.simps



lemma n_treatment_100_57: "n_treatment 100 (57/100) = 56"
  by (simp add: n_treatment_eval)

lemma n_treatment_no_teachers: "n_treatment 0 outcome_share = 0"
  by (simp add: n_treatment_def py_float_mul_def round_double_def py_int_def)

lemma deff_ge_one: "1 \<le> students_per_teacher \<Longrightarrow> 1 \<le> deff students_per_teacher use_clustering icc"
  by (simp add: deff_def)

lemma deff_pos: "1 \<le> students_per_teacher \<Longrightarrow> 0 < deff students_per_teacher use_clustering icc"
  using deff_ge_one [of students_per_teacher use_clustering icc] by linarith

lemma deff_mono_icc:
  assumes "1 \<le> students_per_teacher" and "icc1 \<le> icc2"
  shows "deff students_per_teacher use_clustering icc1 \<le> deff students_per_teacher use_clustering icc2"
  using assms by (auto simp: deff_def mult_left_mono)

lemma deff_eq_ClusterAdjustment_spec:
  "deff students_per_teacher use_clustering icc
     = ClusterAdjustment_spec students_per_teacher icc use_clustering"
  by (auto simp: deff_def ClusterAdjustment_spec_def)

text \<open>
  With at least one student per teacher the divisor of line 17 is at least 1, so
  \<^verbatim>\<open>calculate_power\<close> raises nothing of its own: the branch of lines 14--21 is the
  division of \<^verbatim>\<open>n_treatment * students_per_teacher\<close> by the design effect.
\<close>

lemma effective_n_treatment_deff:
  assumes "1 \<le> students_per_teacher"
  shows "effective_n_treatment n_teachers outcome_share students_per_teacher use_clustering icc
       = Inr (real_of_int (n_treatment n_teachers outcome_share * students_per_teacher)
              / deff students_per_teacher use_clustering icc)"
proof (cases "use_clustering \<and> icc > 0")
  case True
  with assms have "0 < 1 + (real_of_int students_per_teacher - 1) * icc"
    by (simp add: add_pos_nonneg)
  with True show ?thesis
    by (simp add: effective_n_treatment_def deff_def Let_def)
next
  case False
  then show ?thesis
    by (auto simp add: effective_n_treatment_def deff_def Let_def)
qed

text \<open>
  With no teacher in the intervention arm the external power routine is called with zero
  observations per arm, and its result (a power or an exception) is the result of
  \<^verbatim>\<open>calculate_power\<close>.
\<close>

lemma calculate_power_no_teachers:
  assumes "1 \<le> students_per_teacher"
  shows "calculate_power solve_power 0 outcome_share effect_size students_per_teacher
           use_clustering icc
       = solve_power effect_size 0 1 0.05 ''two-sided''"
  using effective_n_treatment_deff [OF assms, of 0 outcome_share use_clustering icc]
  by (simp add: calculate_power_def n_treatment_no_teachers)



section \<open>The design effect\<close>

text \<open>
  Claim C6. With clustering enabled, more than one unit per cluster and \<open>icc\<close> in \<open>(0, 1]\<close>,
  the design effect computed by the source is greater than 1, and it is strictly
  increasing in \<open>icc\<close> on that interval.
\<close>

theorem deff_gt_one_strict_mono:
  assumes "1 < students_per_teacher"
  shows "(0 < icc \<and> icc \<le> 1 \<longrightarrow> 1 < deff students_per_teacher True icc)
       \<and> (0 < icc1 \<and> icc1 < icc2 \<and> icc2 \<le> 1 \<longrightarrow>
            deff students_per_teacher True icc1 < deff students_per_teacher True icc2)"
  using assms by (simp add: deff_def)

theorem deff_gt_one_strict_mono_witness:
  "(1::int) < 22 \<and> 1 < deff 22 True (1/5) \<and> deff 22 True (1/10) < deff 22 True (1/5)"
proof -
  have h: "(1::int) < 22" by simp
  from deff_gt_one_strict_mono [OF h, of "1/5" "1/10" "1/5"]
  show ?thesis by simp
qed

text \<open>
  Claim C3. For \<open>units_per_cluster \<ge> 1\<close> and \<open>icc \<ge> 0\<close>, the design effect of both
  functions is the specification's ClusterAdjustment: \<open>1 + (units_per_cluster - 1) * icc\<close>
  when the clustering flag is set and \<open>icc > 0\<close>, exactly 1 otherwise. In
  \<^verbatim>\<open>calculate_sample_size\<close> it is the value of \<^verbatim>\<open>deff\<close>; in \<^verbatim>\<open>calculate_power\<close> it is
  the divisor of the per-arm observation count (the branch without a division divides
  by 1).
\<close>

theorem ClusterAdjustment_refined:
  assumes "1 \<le> students_per_teacher" and "0 \<le> icc"
  shows "deff students_per_teacher use_clustering icc
           = ClusterAdjustment_spec students_per_teacher icc use_clustering
       \<and> effective_n_treatment n_teachers outcome_share students_per_teacher use_clustering icc
           = Inr (real_of_int (n_treatment n_teachers outcome_share * students_per_teacher)
                  / ClusterAdjustment_spec students_per_teacher icc use_clustering)"
  using effective_n_treatment_deff [OF assms(1), of n_teachers outcome_share use_clustering icc]
  by (simp add: deff_eq_ClusterAdjustment_spec)

theorem ClusterAdjustment_refined_witness:
  "(1::int) \<le> 22 \<and> (0::real) \<le> 1/5
   \<and> deff 22 True (1/5) = 26/5 \<and> ClusterAdjustment_spec 22 (1/5) True = 26/5
   \<and> deff 22 False (1/5) = 1 \<and> deff 22 True 0 = 1
   \<and> effective_n_treatment 25 1 22 True (1/5) = Inr (1375/13)"
proof -
  have h: "(1::int) \<le> 22" "(0::real) \<le> 1/5" by simp_all
  have "n_treatment 25 1 = 25" by (simp add: n_treatment_eval)
  with ClusterAdjustment_refined [OF h, of True 25 1]
  show ?thesis by (simp add: ClusterAdjustment_spec_def deff_def)
qed

section \<open>The observation count passed by calculate\_power\<close>




text \<open>
  Claim C10. \<^verbatim>\<open>calculate_power\<close> reads \<open>outcome_share\<close> only through the truncated
  integer \<^verbatim>\<open>int(n_teachers * outcome_share)\<close>: two outcome shares with the same
  truncated product give the same result, all other arguments fixed.
\<close>

theorem calculate_power_step_in_outcome_share:
  assumes "n_treatment n_teachers outcome_share1 = n_treatment n_teachers outcome_share2"
  shows "calculate_power solve_power n_teachers outcome_share1 effect_size students_per_teacher
           use_clustering icc
       = calculate_power solve_power n_teachers outcome_share2 effect_size students_per_teacher
           use_clustering icc"
  using assms by (simp add: calculate_power_def effective_n_treatment_def Let_def)

theorem calculate_power_step_in_outcome_share_witness:
  "n_treatment 10 (1/2) = n_treatment 10 (11/20)
   \<and> calculate_power stub_solve_power 10 (1/2) (1/5) 22 False 0
       = calculate_power stub_solve_power 10 (11/20) (1/5) 22 False 0"
proof -
  have h: "n_treatment 10 (1/2) = n_treatment 10 (11/20)"
    by (simp add: n_treatment_eval)
  from calculate_power_step_in_outcome_share [OF h, of stub_solve_power "1/5" 22 False 0] h
  show ?thesis by simp
qed

section \<open>The result of calculate\_sample\_size\<close>

text \<open>
  Claim C1, as amended. For \<open>outcome_share = 0\<close>, \<^verbatim>\<open>calculate_sample_size\<close> returns no
  number: once the external solver has returned, the division of line 41 by
  \<open>students_per_teacher * outcome_share = 0\<close> raises Python's ZeroDivisionError, which
  the function does not catch (an exception of the solver itself propagates unchanged).
\<close>

theorem calculate_sample_size_zero_share:
  "calculate_sample_size tt_ind_solve_power effect_size 0 students_per_teacher use_clustering icc
     = (case tt_ind_solve_power effect_size 0.05 0.8 1 ''two-sided'' of
          Inl e \<Rightarrow> Inl e | Inr n \<Rightarrow> Inl ZeroDivisionError)
   \<and> calculate_sample_size tt_ind_solve_power effect_size 0 students_per_teacher use_clustering icc
       \<noteq> Inr total_teachers"
  by (simp add: calculate_sample_size_def split: sum.split)

theorem calculate_sample_size_zero_share_witness:
  "calculate_sample_size stub_tt_ind_solve_power (1/5) 0 22 True (1/5) = Inl ZeroDivisionError
   \<and> calculate_sample_size stub_tt_ind_solve_power 0 0 22 True (1/5) = Inl UnderlyingSolverFailure"
  using calculate_sample_size_zero_share [of stub_tt_ind_solve_power "1/5" 22 True "1/5"]
    calculate_sample_size_zero_share [of stub_tt_ind_solve_power 0 22 True "1/5"]
  by (simp add: stub_tt_ind_solve_power_def)

text \<open>
  Claim C1 as stated fails: at \<open>effect_size = 0.12\<close>, \<open>outcome_share = 0\<close>, 22 students
  per teacher and no clustering the failure is the arithmetic fault ZeroDivisionError, not
  a DegenerateInputError.
\<close>

theorem calculate_sample_size_zero_share_counterexample:
  "calculate_sample_size stub_tt_ind_solve_power (3/25) 0 22 False 0 = Inl ZeroDivisionError
   \<and> calculate_sample_size stub_tt_ind_solve_power (3/25) 0 22 False 0 \<noteq> Inl DegenerateInputError"
  by (simp add: calculate_sample_size_def stub_tt_ind_solve_power_def)

text \<open>
  Claim C4. For \<open>outcome_share\<close> in \<open>(0, 1]\<close> and a positive number of units per cluster,
  when the external inverse solver returns \<open>n\<close> for the effect size at significance level
  0.05, target power 0.80, ratio 1 and the two-sided alternative,
  \<^verbatim>\<open>calculate_sample_size\<close> returns
  \<open>2 * ceiling ((n * deff) / (units_per_cluster * outcome_share))\<close>, with \<open>deff\<close> the
  ClusterAdjustment value.
\<close>

theorem calculate_sample_size_formula:
  assumes "tt_ind_solve_power effect_size 0.05 0.8 1 ''two-sided'' = Inr n"
    and "0 < outcome_share" and "outcome_share \<le> 1" and "1 \<le> students_per_teacher"
  shows "calculate_sample_size tt_ind_solve_power effect_size outcome_share students_per_teacher
           use_clustering icc
       = Inr (2 * \<lceil>(n * ClusterAdjustment_spec students_per_teacher icc use_clustering)
                    / (real_of_int students_per_teacher * outcome_share)\<rceil>)"
  using assms by (simp add: calculate_sample_size_def deff_eq_ClusterAdjustment_spec)

theorem calculate_sample_size_formula_witness:
  "stub_tt_ind_solve_power (1/5) 0.05 0.8 1 ''two-sided'' = Inr 400
   \<and> (0::real) < 1/2 \<and> (1/2::real) \<le> 1 \<and> (1::int) \<le> 22
   \<and> calculate_sample_size stub_tt_ind_solve_power (1/5) (1/2) 22 True (1/5) = Inr 380"
proof -
  have s: "stub_tt_ind_solve_power (1/5) 0.05 0.8 1 ''two-sided'' = Inr 400"
    by (simp add: stub_tt_ind_solve_power_def)
  have h: "(0::real) < 1/2" "(1/2::real) \<le> 1" "(1::int) \<le> 22" by simp_all
  from calculate_sample_size_formula [of stub_tt_ind_solve_power "1/5" 400 "1/2" 22 True "1/5"] s h
  show ?thesis by (simp add: ClusterAdjustment_spec_def)
qed

text \<open>
  Claim C7. With clustering on (in particular with 22 units per cluster, from \<open>icc = 0.0\<close>
  to \<open>icc = 0.2\<close>), the value returned by \<^verbatim>\<open>calculate_sample_size\<close> does not decrease
  when \<open>icc\<close> increases, all other inputs fixed. The external solver is taken to return a
  per-arm observation count, that is \<open>n \<ge> 0\<close>.
\<close>

theorem calculate_sample_size_mono_icc:
  assumes solved: "tt_ind_solve_power effect_size 0.05 0.8 1 ''two-sided'' = Inr n"
    and "0 \<le> n" and "0 < outcome_share" and "outcome_share \<le> 1"
    and "1 \<le> students_per_teacher" and "icc1 \<le> icc2"
  shows "\<exists>t1 t2.
           calculate_sample_size tt_ind_solve_power effect_size outcome_share students_per_teacher
             True icc1 = Inr t1
         \<and> calculate_sample_size tt_ind_solve_power effect_size outcome_share students_per_teacher
             True icc2 = Inr t2
         \<and> t1 \<le> t2"
proof -
  let ?c = "real_of_int students_per_teacher * outcome_share"
  let ?d1 = "deff students_per_teacher True icc1"
  let ?d2 = "deff students_per_teacher True icc2"
  from assms have c: "0 < ?c" by simp
  have "?d1 \<le> ?d2" using assms(5,6) by (rule deff_mono_icc)
  with \<open>0 \<le> n\<close> have "n * ?d1 \<le> n * ?d2" by (simp add: mult_left_mono)
  with c have "(n * ?d1) / ?c \<le> (n * ?d2) / ?c" by (simp add: divide_right_mono)
  then have "\<lceil>(n * ?d1) / ?c\<rceil> \<le> \<lceil>(n * ?d2) / ?c\<rceil>" by (rule ceiling_mono)
  then show ?thesis
    using assms by (simp add: calculate_sample_size_def)
qed

theorem calculate_sample_size_mono_icc_witness:
  "stub_tt_ind_solve_power (1/5) 0.05 0.8 1 ''two-sided'' = Inr 400
   \<and> (0::real) \<le> 400 \<and> (0::real) < 1 \<and> (1::real) \<le> 1 \<and> (1::int) \<le> 22 \<and> (0::real) \<le> 1/5
   \<and> calculate_sample_size stub_tt_ind_solve_power (1/5) 1 22 True 0 = Inr 38
   \<and> calculate_sample_size stub_tt_ind_solve_power (1/5) 1 22 True (1/5) = Inr 190
   \<and> (\<exists>t1 t2. calculate_sample_size stub_tt_ind_solve_power (1/5) 1 22 True 0 = Inr t1
        \<and> calculate_sample_size stub_tt_ind_solve_power (1/5) 1 22 True (1/5) = Inr t2
        \<and> t1 \<le> t2)"
proof -
  have s: "stub_tt_ind_solve_power (1/5) 0.05 0.8 1 ''two-sided'' = Inr 400"
    by (simp add: stub_tt_ind_solve_power_def)
  have h: "(0::real) \<le> 400" "(0::real) < 1" "(1::real) \<le> 1" "(1::int) \<le> 22" "(0::real) \<le> 1/5"
    by simp_all
  have v: "calculate_sample_size stub_tt_ind_solve_power (1/5) 1 22 True 0 = Inr 38"
      "calculate_sample_size stub_tt_ind_solve_power (1/5) 1 22 True (1/5) = Inr 190"
    by (simp_all add: calculate_sample_size_def stub_tt_ind_solve_power_def deff_def)
  from calculate_sample_size_mono_icc [of stub_tt_ind_solve_power "1/5" 400 1 22 0 "1/5"] s h v
  show ?thesis by simp
qed

text \<open>
  Claim C8. For a valid input (\<open>outcome_share\<close> in \<open>(0, 1]\<close>, \<open>units_per_cluster \<ge> 1\<close>, any
  effect size, clustering flag and \<open>icc\<close>) \<^verbatim>\<open>calculate_sample_size\<close> returns an even
  integer; it is non-negative when the solver's observation count \<open>n\<close> is non-negative and
  at least 2 when \<open>n\<close> is positive, which covers \<open>effect_size = 0.12\<close>,
  \<open>outcome_share = 1.0\<close> without clustering.
\<close>

theorem calculate_sample_size_even_nonneg:
  assumes solved: "tt_ind_solve_power effect_size 0.05 0.8 1 ''two-sided'' = Inr n"
    and "0 < outcome_share" and "outcome_share \<le> 1" and "1 \<le> students_per_teacher"
  shows "\<exists>t. calculate_sample_size tt_ind_solve_power effect_size outcome_share
               students_per_teacher use_clustering icc = Inr t
           \<and> even t \<and> (0 \<le> n \<longrightarrow> 0 \<le> t) \<and> (0 < n \<longrightarrow> 2 \<le> t)"
proof -
  let ?c = "real_of_int students_per_teacher * outcome_share"
  let ?d = "deff students_per_teacher use_clustering icc"
  let ?k = "\<lceil>(n * ?d) / ?c\<rceil>"
  from assms have c: "0 < ?c" by simp
  have d: "0 < ?d" using assms(4) by (rule deff_pos)
  have nonneg: "0 \<le> ?k" if "0 \<le> n"
  proof -
    from that d c have "0 \<le> (n * ?d) / ?c" by simp
    then show ?thesis by (simp add: ceiling_le_iff le_ceiling_iff)
  qed
  have pos: "1 \<le> ?k" if "0 < n"
  proof -
    from that d c have "0 < (n * ?d) / ?c" by simp
    then have "0 < ?k" by (simp add: ceiling_less_iff less_ceiling_iff)
    then show ?thesis by linarith
  qed
  have "calculate_sample_size tt_ind_solve_power effect_size outcome_share
               students_per_teacher use_clustering icc = Inr (?k * 2)"
    using assms by (simp add: calculate_sample_size_def)
  moreover have "even (?k * 2)" by simp
  moreover have "0 \<le> n \<longrightarrow> 0 \<le> ?k * 2" using nonneg by auto
  moreover have "0 < n \<longrightarrow> 2 \<le> ?k * 2" using pos by auto
  ultimately show ?thesis by blast
qed

theorem calculate_sample_size_even_nonneg_witness:
  "stub_tt_ind_solve_power (3/25) 0.05 0.8 1 ''two-sided'' = Inr (10000/9)
   \<and> (0::real) < 1 \<and> (1::real) \<le> 1 \<and> (1::int) \<le> 22
   \<and> (\<exists>t. calculate_sample_size stub_tt_ind_solve_power (3/25) 1 22 False 0 = Inr t
          \<and> even t \<and> 2 \<le> t)"
proof -
  have s: "stub_tt_ind_solve_power (3/25) 0.05 0.8 1 ''two-sided'' = Inr (10000/9)"
    by (simp add: stub_tt_ind_solve_power_def)
  from calculate_sample_size_even_nonneg [of stub_tt_ind_solve_power "3/25" "10000/9" 1 22 False 0] s
  show ?thesis by auto
qed

section \<open>Consistency of the round trip\<close>

text \<open>
  With the settings effect size 0.24, outcome share 57 percent, 22 students per teacher,
  clustering on and \<open>icc = 0.17\<close>, whatever the external routines are: when the solver's
  answer \<open>n\<close> lies between 272 and 274 observations per arm, the total is 200 teachers,
  100 per arm; line 11 makes 56 teachers of \<open>100 * 0.57\<close>, and the power routine is called
  with \<open>56 * 22 / 4.57\<close>, about 269.6 observations, fewer than \<open>n\<close>.
\<close>

lemma round_trip_short_of_solver:
  assumes solved: "tt_ind_solve_power (6/25) 0.05 0.8 1 ''two-sided'' = Inr n"
    and "272 \<le> n" and "n \<le> 274"
  shows "round_trip solve_power tt_ind_solve_power (6/25) (57/100) 22 True (17/100)
           = solve_power (6/25) (123200/457) 1 0.05 ''two-sided''
       \<and> 123200/457 < n"
proof -
  have c: "\<lceil>(n * deff 22 True (17/100)) / (real_of_int 22 * (57/100))\<rceil> = 100"
    using assms(2,3) by (intro ceiling_unique) (simp_all add: deff_def)
  have nz: "real_of_int 22 * (57/100) \<noteq> (0::real)" by simp
  have "calculate_sample_size tt_ind_solve_power (6/25) (57/100) 22 True (17/100) = Inr 200"
    unfolding calculate_sample_size_def solved
    by (simp only: sum.case nz if_False Let_def c) simp
  moreover have "effective_n_treatment 100 (57/100) 22 True (17/100) = Inr (123200/457)"
    by (simp add: effective_n_treatment_def n_treatment_100_57)
  ultimately show ?thesis
    using assms(2) by (simp add: round_trip_def calculate_power_def)
qed




end
